theory Spec2Isabelle
  imports Main "HOL-Library.Sublist"
begin

section \<open>JavaScript values used by the scheduling code\<close>

text \<open>
  The scheduling helpers of \<^verbatim>\<open>src/utils/scheduleUtils.js\<close> work on strings and on
  JavaScript numbers. Every number that occurs is obtained from an integer duration or
  from \<^verbatim>\<open>Number(s)\<close> applied to a piece of a time-slot string, so a number is modelled as
  an integer or \<^verbatim>\<open>NaN\<close>. Arithmetic with \<^verbatim>\<open>NaN\<close> gives \<^verbatim>\<open>NaN\<close> and every comparison with
  \<^verbatim>\<open>NaN\<close> is false, as in JavaScript. \<^verbatim>\<open>undefined\<close> (a missing array element after
  destructuring) only ever reaches an addition, where it behaves as \<^verbatim>\<open>NaN\<close>. Integers are
  exact here, and JavaScript numbers are exact for integers of magnitude below \<open>2 ^ 53\<close>:
  the model is the code as long as every number stays below that bound, as the minutes
  of a day and the durations of services do.
\<close>

datatype jsnum = Num int | NaN

fun js_add :: "jsnum \<Rightarrow> jsnum \<Rightarrow> jsnum" where
  "js_add (Num a) (Num b) = Num (a + b)"
| "js_add _ _ = NaN"

fun js_mul :: "jsnum \<Rightarrow> jsnum \<Rightarrow> jsnum" where
  "js_mul (Num a) (Num b) = Num (a * b)"
| "js_mul _ _ = NaN"

fun js_lt :: "jsnum \<Rightarrow> jsnum \<Rightarrow> bool" where
  "js_lt (Num a) (Num b) = (a < b)"
| "js_lt _ _ = False"

fun js_le :: "jsnum \<Rightarrow> jsnum \<Rightarrow> bool" where
  "js_le (Num a) (Num b) = (a \<le> b)"
| "js_le _ _ = False"

fun js_gt :: "jsnum \<Rightarrow> jsnum \<Rightarrow> bool" where
  "js_gt (Num a) (Num b) = (a > b)"
| "js_gt _ _ = False"

fun js_ge :: "jsnum \<Rightarrow> jsnum \<Rightarrow> bool" where
  "js_ge (Num a) (Num b) = (a \<ge> b)"
| "js_ge _ _ = False"

subsection \<open>\<^verbatim>\<open>Number.prototype.toString\<close> and \<^verbatim>\<open>String.prototype.padStart\<close>\<close>

definition digitChar :: "nat \<Rightarrow> char" where
  "digitChar n = ''0123456789'' ! (n mod 10)"

fun digitsOf :: "nat \<Rightarrow> string" where
  "digitsOf n = (if n < 10 then [digitChar n] else digitsOf (n div 10) @ [digitChar n])"

declare digitsOf.simps [simp del]

definition toString :: "int \<Rightarrow> string" where
  "toString i = (if i < 0 then CHR ''-'' # digitsOf (nat (- i)) else digitsOf (nat i))"

definition padStart :: "nat \<Rightarrow> char \<Rightarrow> string \<Rightarrow> string" where
  "padStart n c s = replicate (n - length s) c @ s"

subsection \<open>\<^verbatim>\<open>String.prototype.split\<close> and \<^verbatim>\<open>Number(s)\<close>\<close>

text \<open>
  \<^verbatim>\<open>s.split(':')\<close> never returns an empty array: the empty string splits into one empty
  piece.
\<close>

fun split :: "char \<Rightarrow> string \<Rightarrow> string list" where
  "split sep [] = [[]]"
| "split sep (c # cs) =
     (if c = sep then [] # split sep cs
      else (case split sep cs of
              [] \<Rightarrow> [[c]]
            | p # ps \<Rightarrow> (c # p) # ps))"

definition isDigit :: "char \<Rightarrow> bool" where
  "isDigit c = (c \<in> set ''0123456789'')"

definition digitVal :: "char \<Rightarrow> int" where
  "digitVal c = int (of_char c) - 48"

definition decimalVal :: "string \<Rightarrow> int" where
  "decimalVal ds = foldl (\<lambda>acc c. acc * 10 + digitVal c) 0 ds"

definition isSpace :: "char \<Rightarrow> bool" where
  "isSpace c = (c \<in> set [CHR '' '', CHR 0x09, CHR 0x0A, CHR 0x0B, CHR 0x0C, CHR 0x0D])"

definition trim :: "string \<Rightarrow> string" where
  "trim s = rev (dropWhile isSpace (rev (dropWhile isSpace s)))"

text \<open>
  \<^verbatim>\<open>Number(s)\<close> on a string: surrounding white space is dropped, the empty string is 0, an
  optionally signed run of decimal digits is that integer, and a string that is no
  numeric literal is \<^verbatim>\<open>NaN\<close>. The model covers this integer fragment of the numeric
  literals: a literal with a fraction, an exponent, a radix prefix or the word
  \<^verbatim>\<open>Infinity\<close> has a JavaScript value that is no integer written in plain decimal, and
  such strings are not in the fragment (the model answers \<^verbatim>\<open>NaN\<close> for them), nor is a
  string padded with white space outside ASCII. On the strings of the form \<^verbatim>\<open>"HH:MM"\<close>,
  the only ones the interfaces exchange, the model is \<^verbatim>\<open>Number\<close> itself. No statement below
  depends on the value the model gives to a string outside the fragment: a statement
  about a slot string takes a time slot, or assumes the integers its pieces are read as,
  or holds whatever they are read as.
\<close>

definition unsignedDecimal :: "string \<Rightarrow> jsnum" where
  "unsignedDecimal ds = (if ds \<noteq> [] \<and> list_all isDigit ds then Num (decimalVal ds) else NaN)"

definition jsNumber :: "string \<Rightarrow> jsnum" where
  "jsNumber s =
     (case trim s of
        [] \<Rightarrow> Num 0
      | c # cs \<Rightarrow>
          if c = CHR ''-'' then js_mul (Num (- 1)) (unsignedDecimal cs)
          else if c = CHR ''+'' then unsignedDecimal cs
          else unsignedDecimal (c # cs))"

section \<open>Scheduling helpers (\<^verbatim>\<open>src/utils/scheduleUtils.js\<close>)\<close>

text \<open>The module constants \<^verbatim>\<open>BUSINESS_HOURS = { start: 9, end: 18 }\<close> and \<^verbatim>\<open>TIME_SLOT_INTERVAL = 30\<close>.\<close>

definition BUSINESS_HOURS_start :: int where
  "BUSINESS_HOURS_start = 9"

definition BUSINESS_HOURS_end :: int where
  "BUSINESS_HOURS_end = 18"

definition TIME_SLOT_INTERVAL :: int where
  "TIME_SLOT_INTERVAL = 30"

subsection \<open>\<^verbatim>\<open>generateTimeSlots\<close>\<close>

text \<open>
  \<^verbatim>\<open>totalSlots = ((end - start) * 60) / TIME_SLOT_INTERVAL\<close> is a division of JavaScript
  numbers; with the module constants it is 540 / 30, which is exact, so integer division
  gives the same value. The body of the loop formats slot \<open>i\<close>; all numbers in it are
  non-negative, so \<^verbatim>\<open>Math.floor(minutes / 60)\<close> is \<open>div\<close> and \<^verbatim>\<open>%\<close> is \<open>mod\<close>.
\<close>

definition totalSlots :: int where
  "totalSlots = ((BUSINESS_HOURS_end - BUSINESS_HOURS_start) * 60) div TIME_SLOT_INTERVAL"

definition formatSlot :: "int \<Rightarrow> string" where
  "formatSlot i =
     (let minutes = i * TIME_SLOT_INTERVAL;
          hour = minutes div 60 + BUSINESS_HOURS_start;
          minute = minutes mod 60
      in padStart 2 CHR ''0'' (toString hour) @ '':'' @ padStart 2 CHR ''0'' (toString minute))"

function generateTimeSlots_loop :: "int \<Rightarrow> string list \<Rightarrow> string list" where
  "generateTimeSlots_loop i slots =
     (if i < totalSlots then generateTimeSlots_loop (i + 1) (slots @ [formatSlot i]) else slots)"
  by pat_completeness auto
termination
  by (relation "measure (\<lambda>(i, slots). nat (totalSlots - i))") auto

declare generateTimeSlots_loop.simps [simp del]

definition generateTimeSlots :: "string list" where
  "generateTimeSlots = generateTimeSlots_loop 0 []"

subsection \<open>\<^verbatim>\<open>isTimeSlotAvailable\<close>\<close>

text \<open>
  An element of \<^verbatim>\<open>existingAppointments\<close>: the objects built by the callers have the two
  fields \<^verbatim>\<open>timeSlot\<close> and \<^verbatim>\<open>serviceDuration\<close>.
\<close>

record formattedAppointment =
  timeSlot :: string
  serviceDuration :: int

text \<open>
  \<^verbatim>\<open>const [hours, minutes] = timeSlot.split(':').map(Number)\<close>: the first two pieces, as
  numbers; a missing second piece is \<^verbatim>\<open>undefined\<close>, which the following addition turns
  into \<^verbatim>\<open>NaN\<close>.
\<close>

definition parseTimeSlot :: "string \<Rightarrow> jsnum \<times> jsnum" where
  "parseTimeSlot s =
     (case map jsNumber (split CHR '':'' s) of
        [] \<Rightarrow> (NaN, NaN)
      | [h] \<Rightarrow> (h, NaN)
      | h # m # _ \<Rightarrow> (h, m))"

definition startMinutes :: "string \<Rightarrow> jsnum" where
  "startMinutes s = (case parseTimeSlot s of (hours, minutes) \<Rightarrow> js_add (js_mul hours (Num 60)) minutes)"

definition overlaps :: "jsnum \<Rightarrow> jsnum \<Rightarrow> jsnum \<Rightarrow> jsnum \<Rightarrow> bool" where
  "overlaps slotStartMinutes slotEndMinutes appStartMinutes appEndMinutes =
     ((js_ge slotStartMinutes appStartMinutes \<and> js_lt slotStartMinutes appEndMinutes) \<or>
      (js_gt slotEndMinutes appStartMinutes \<and> js_le slotEndMinutes appEndMinutes) \<or>
      (js_le slotStartMinutes appStartMinutes \<and> js_ge slotEndMinutes appEndMinutes))"

text \<open>The \<^verbatim>\<open>for\<close> loop over the existing appointments, with its early \<^verbatim>\<open>return false\<close>.\<close>

fun noConflict :: "jsnum \<Rightarrow> jsnum \<Rightarrow> formattedAppointment list \<Rightarrow> bool" where
  "noConflict slotStartMinutes slotEndMinutes [] = True"
| "noConflict slotStartMinutes slotEndMinutes (appointment # rest) =
     (let appStartMinutes = startMinutes (timeSlot appointment);
          appEndMinutes = js_add appStartMinutes (Num (serviceDuration appointment))
      in if overlaps slotStartMinutes slotEndMinutes appStartMinutes appEndMinutes then False
         else noConflict slotStartMinutes slotEndMinutes rest)"

definition isTimeSlotAvailable :: "string \<Rightarrow> formattedAppointment list \<Rightarrow> int \<Rightarrow> bool" where
  "isTimeSlotAvailable slot existingAppointments duration =
     (case parseTimeSlot slot of
        (hours, minutes) \<Rightarrow>
          let slotStartMinutes = js_add (js_mul hours (Num 60)) minutes;
              slotEndMinutes = js_add slotStartMinutes (Num duration)
          in if js_lt hours (Num BUSINESS_HOURS_start) \<or>
                js_gt slotEndMinutes (Num (BUSINESS_HOURS_end * 60))
             then False
             else noConflict slotStartMinutes slotEndMinutes existingAppointments)"

subsection \<open>\<^verbatim>\<open>getAvailableTimeSlots\<close>\<close>

text \<open>A calendar instant (a JavaScript \<^verbatim>\<open>Date\<close>) is its number of milliseconds since the epoch.\<close>

type_synonym date = int

fun availableLoop :: "formattedAppointment list \<Rightarrow> int \<Rightarrow> string list \<Rightarrow> string list \<Rightarrow> string list" where
  "availableLoop existingAppointments duration [] availableSlots = availableSlots"
| "availableLoop existingAppointments duration (slot # rest) availableSlots =
     availableLoop existingAppointments duration rest
       (if isTimeSlotAvailable slot existingAppointments duration
        then availableSlots @ [slot] else availableSlots)"

definition getAvailableTimeSlots :: "date \<Rightarrow> formattedAppointment list \<Rightarrow> int \<Rightarrow> string list" where
  "getAvailableTimeSlots d existingAppointments duration =
     availableLoop existingAppointments duration generateTimeSlots []"

section \<open>Documents of the data store\<close>

text \<open>
  The Mongoose schemas \<^verbatim>\<open>Waitlist\<close>, \<^verbatim>\<open>Appointment\<close> and \<^verbatim>\<open>Service\<close>. An \<^verbatim>\<open>ObjectId\<close> is a
  natural number. Of a service, the fields the scheduling code reads are kept; a duration
  is a whole number of minutes.
\<close>

type_synonym oid = nat

datatype waitlistStatus = waiting | notified | booked | expired

datatype appointmentStatus = pending | confirmed | cancelled | completed | no_show

record service =
  svc_name :: string
  duration :: int

text \<open>
  Modelled from the spec: the schema file \<^verbatim>\<open>models/User.js\<close> is not among the sources, and
  the specification leaves the user to the collaborators. The record has the fields that
  the code under \<^verbatim>\<open>src\<close> reads from a user when it notifies: \<^verbatim>\<open>phone\<close> (absent or a string),
  \<^verbatim>\<open>preferences.emailNotifications\<close> and \<^verbatim>\<open>preferences.smsNotifications\<close>. The nested
  object \<^verbatim>\<open>preferences\<close> is present in every user document, and an absent flag is false.
\<close>

record user =
  usr_phone :: "string option"
  usr_emailNotifications :: bool
  usr_smsNotifications :: bool

record waitlistEntry =
  wl_id :: oid
  wl_userId :: oid
  wl_serviceId :: oid
  wl_date :: date
  wl_preferredTimeSlots :: "string list"
  wl_status :: waitlistStatus
  wl_notifiedAt :: "date option"
  wl_createdAt :: date
  wl_updatedAt :: date

record appointment =
  ap_id :: oid
  ap_userId :: oid
  ap_serviceId :: oid
  ap_date :: date
  ap_timeSlot :: string
  ap_status :: appointmentStatus
  ap_notes :: "string option"
  ap_reminderSent :: bool
  ap_createdAt :: date
  ap_updatedAt :: date

subsection \<open>The world of one reconciliation pass\<close>

text \<open>
  The collections, and the trace of what the pass did to the outside: documents saved,
  messages handed to the SMS provider, errors written with \<^verbatim>\<open>console.error\<close>.
\<close>

record smsMessage =
  sms_to :: string
  sms_serviceName :: string
  sms_date :: date
  sms_slot :: string

datatype event = WaitlistSaved oid | SmsRequested smsMessage | ErrorLogged string

record world =
  Waitlist :: "waitlistEntry list"
  Appointment :: "appointment list"
  Service :: "oid \<rightharpoonup> service"
  User :: "oid \<rightharpoonup> user"
  events :: "event list"

datatype error = TypeError

section \<open>SMS dispatch (\<^verbatim>\<open>sendWaitlistNotificationSMS\<close>)\<close>

text \<open>
  The provider (\<^verbatim>\<open>client.messages.create\<close>) is the environment: it answers a message with
  its \<^verbatim>\<open>sid\<close>, or the request fails (\<open>None\<close>). The function returns a boolean (\<^verbatim>\<open>false\<close>
  without a phone number, on an empty \<^verbatim>\<open>sid\<close> and on a failed request, which it catches and
  logs) together with what it did to the outside.
\<close>

type_synonym twilio = "smsMessage \<Rightarrow> string option"

definition sendWaitlistNotificationSMS ::
  "twilio \<Rightarrow> user \<Rightarrow> service \<Rightarrow> date \<Rightarrow> string \<Rightarrow> bool \<times> event list" where
  "sendWaitlistNotificationSMS client usr svc d availableSlot =
     (case usr_phone usr of
        None \<Rightarrow> (False, [])
      | Some ph \<Rightarrow>
          if ph = [] then (False, [])
          else
            let msg = \<lparr>sms_to = ph, sms_serviceName = svc_name svc, sms_date = d,
                       sms_slot = availableSlot\<rparr>
            in (case client msg of
                  None \<Rightarrow>
                    (False, [SmsRequested msg,
                             ErrorLogged ''Error sending waitlist notification SMS:''])
                | Some sid \<Rightarrow> (sid \<noteq> [], [SmsRequested msg])))"

section \<open>Waitlist reconciliation (\<^verbatim>\<open>updateWaitlistForDate\<close>)\<close>

text \<open>
  \<^verbatim>\<open>setHours(0, 0, 0, 0)\<close> and \<^verbatim>\<open>setHours(23, 59, 59, 999)\<close>, with the local time zone taken to be
  UTC: the first and the last millisecond of the day of \<open>d\<close>.
\<close>

definition startOfDay :: "date \<Rightarrow> date" where
  "startOfDay d = d - d mod 86400000"

definition endOfDay :: "date \<Rightarrow> date" where
  "endOfDay d = startOfDay d + 86399999"

text \<open>
  The query \<^verbatim>\<open>Waitlist.find({date: ..., status: 'waiting'}).sort({createdAt: 1})\<close>; the sort is
  taken to be stable. \<^verbatim>\<open>populate\<close> replaces a reference by the document, or by \<^verbatim>\<open>null\<close>
  when no document has that id.
\<close>

definition waitingEntries :: "world \<Rightarrow> date \<Rightarrow> waitlistEntry list" where
  "waitingEntries w d =
     sort_key wl_createdAt
       (filter (\<lambda>e. startOfDay d \<le> wl_date e \<and> wl_date e \<le> endOfDay d \<and> wl_status e = waiting)
          (Waitlist w))"

record populatedEntry =
  pe_entry :: waitlistEntry
  pe_user :: "user option"
  pe_service :: "service option"

definition populateEntry :: "world \<Rightarrow> waitlistEntry \<Rightarrow> populatedEntry" where
  "populateEntry w e =
     \<lparr>pe_entry = e, pe_user = User w (wl_userId e), pe_service = Service w (wl_serviceId e)\<rparr>"

text \<open>The query for the appointments of the day that are neither cancelled nor no-show.\<close>

definition activeAppointments :: "world \<Rightarrow> date \<Rightarrow> appointment list" where
  "activeAppointments w d =
     filter (\<lambda>a. startOfDay d \<le> ap_date a \<and> ap_date a \<le> endOfDay d \<and>
                 ap_status a \<noteq> cancelled \<and> ap_status a \<noteq> no_show)
       (Appointment w)"

text \<open>
  \<^verbatim>\<open>existingAppointments.map(...)\<close>: reading \<^verbatim>\<open>appointment.serviceId.duration\<close> of an
  appointment whose service no longer exists is a \<^verbatim>\<open>TypeError\<close>.
\<close>

fun formatAppointments :: "(oid \<rightharpoonup> service) \<Rightarrow> appointment list \<Rightarrow> error + formattedAppointment list" where
  "formatAppointments svcs [] = Inr []"
| "formatAppointments svcs (a # rest) =
     (case svcs (ap_serviceId a) of
        None \<Rightarrow> Inl TypeError
      | Some s \<Rightarrow>
          (case formatAppointments svcs rest of
             Inl e \<Rightarrow> Inl e
           | Inr fs \<Rightarrow> Inr (\<lparr>timeSlot = ap_timeSlot a, serviceDuration = duration s\<rparr> # fs)))"

text \<open>
  The choice of the slot (lines 674 to 683): the default is \<^verbatim>\<open>availableSlots[0]\<close>, and the
  loop over the preferred slots stops at the first one that \<^verbatim>\<open>availableSlots\<close> includes.
  Nothing is selected when \<^verbatim>\<open>availableSlots\<close> is empty.
\<close>

fun preferredLoop :: "string list \<Rightarrow> string list \<Rightarrow> string \<Rightarrow> string" where
  "preferredLoop availableSlots [] selectedSlot = selectedSlot"
| "preferredLoop availableSlots (preferredSlot # rest) selectedSlot =
     (if preferredSlot \<in> set availableSlots then preferredSlot
      else preferredLoop availableSlots rest selectedSlot)"

fun selectSlot :: "string list \<Rightarrow> string list \<Rightarrow> string option" where
  "selectSlot [] preferred = None"
| "selectSlot (first # others) preferred =
     Some (if preferred \<noteq> [] then preferredLoop (first # others) preferred first else first)"

text \<open>
  \<^verbatim>\<open>entry.save()\<close> writes the modified paths of the document with the entry's id: the
  status, \<^verbatim>\<open>notifiedAt\<close>, and \<^verbatim>\<open>updatedAt\<close>, which the schema's \<^verbatim>\<open>pre('save')\<close> hook refreshes.
  All readings of the clock during one pass give the same instant \<open>now\<close>. The data
  store is taken to answer: the two queries and the save do not fail.
\<close>

definition saveWaitlist :: "date \<Rightarrow> waitlistEntry \<Rightarrow> world \<Rightarrow> world" where
  "saveWaitlist now entry w =
     w\<lparr>Waitlist :=
          map (\<lambda>x. if wl_id x = wl_id entry
                   then x\<lparr>wl_status := wl_status entry, wl_notifiedAt := wl_notifiedAt entry,
                          wl_updatedAt := now\<rparr>
                   else x)
            (Waitlist w),
       events := events w @ [WaitlistSaved (wl_id entry)]\<rparr>"

text \<open>
  The body of the loop over the waiting entries. It returns the world and the error that
  left the loop, if any: \<^verbatim>\<open>entry.serviceId.duration\<close> and \<^verbatim>\<open>entry.userId.preferences\<close> are
  \<^verbatim>\<open>TypeError\<close>s when the populated reference is \<^verbatim>\<open>null\<close>. The branch for e-mail
  notifications is empty in the source. The SMS call is not awaited and its result is
  not read; the provider's answer is recorded where the request is made.
\<close>

definition processEntry ::
  "twilio \<Rightarrow> date \<Rightarrow> date \<Rightarrow> formattedAppointment list \<Rightarrow> populatedEntry \<Rightarrow> world \<Rightarrow> world \<times> error option" where
  "processEntry client now d formattedAppointments pe w =
     (case pe_service pe of
        None \<Rightarrow> (w, Some TypeError)
      | Some svc \<Rightarrow>
          (case selectSlot (getAvailableTimeSlots d formattedAppointments (duration svc))
                  (wl_preferredTimeSlots (pe_entry pe)) of
             None \<Rightarrow> (w, None)
           | Some selectedSlot \<Rightarrow>
               let entry = (pe_entry pe)\<lparr>wl_status := notified, wl_notifiedAt := Some now\<rparr>;
                   w1 = saveWaitlist now entry w
               in (case pe_user pe of
                     None \<Rightarrow> (w1, Some TypeError)
                   | Some usr \<Rightarrow>
                       if usr_smsNotifications usr
                       then (w1\<lparr>events := events w1 @
                                  snd (sendWaitlistNotificationSMS client usr svc d selectedSlot)\<rparr>,
                             None)
                       else (w1, None))))"

fun forEntries ::
  "twilio \<Rightarrow> date \<Rightarrow> date \<Rightarrow> formattedAppointment list \<Rightarrow> populatedEntry list \<Rightarrow> world \<Rightarrow> world \<times> error option" where
  "forEntries client now d formattedAppointments [] w = (w, None)"
| "forEntries client now d formattedAppointments (pe # rest) w =
     (case processEntry client now d formattedAppointments pe w of
        (w', Some err) \<Rightarrow> (w', Some err)
      | (w', None) \<Rightarrow> forEntries client now d formattedAppointments rest w')"

text \<open>
  The whole function: every error is caught by the one \<^verbatim>\<open>try\<close>/\<^verbatim>\<open>catch\<close> around the body and
  logged, so the function always returns.
\<close>

definition updateWaitlistForDate :: "twilio \<Rightarrow> date \<Rightarrow> world \<Rightarrow> date \<Rightarrow> world" where
  "updateWaitlistForDate client now w d =
     (let waitlistEntries = map (populateEntry w) (waitingEntries w d)
      in if waitlistEntries = [] then w
         else
           (case formatAppointments (Service w) (activeAppointments w d) of
              Inl err \<Rightarrow> w\<lparr>events := events w @ [ErrorLogged ''Error updating waitlist:'']\<rparr>
            | Inr formattedAppointments \<Rightarrow>
                (case forEntries client now d formattedAppointments waitlistEntries w of
                   (w', Some err) \<Rightarrow>
                     w'\<lparr>events := events w' @ [ErrorLogged ''Error updating waitlist:'']\<rparr>
                 | (w', None) \<Rightarrow> w')))"

section \<open>Notions used to state the properties\<close>

text \<open>What a save of the pass does to a stored waitlist document.\<close>

definition notifyDoc :: "date \<Rightarrow> waitlistEntry \<Rightarrow> waitlistEntry" where
  "notifyDoc now x = x\<lparr>wl_status := notified, wl_notifiedAt := Some now, wl_updatedAt := now\<rparr>"

text \<open>The documents whose id is in \<open>S\<close> saved as notified, the others untouched.\<close>

definition markIds :: "date \<Rightarrow> oid set \<Rightarrow> waitlistEntry list \<Rightarrow> waitlistEntry list" where
  "markIds now S xs = map (\<lambda>x. if wl_id x \<in> S then notifyDoc now x else x) xs"

text \<open>The stored status of the waitlist entry with a given id.\<close>

definition statusOf :: "world \<Rightarrow> oid \<Rightarrow> waitlistStatus option" where
  "statusOf w i = map_of (map (\<lambda>x. (wl_id x, wl_status x)) (Waitlist w)) i"

definition sameDay :: "date \<Rightarrow> date \<Rightarrow> bool" where
  "sameDay d t = (startOfDay d \<le> t \<and> t \<le> endOfDay d)"

text \<open>
  A time slot as the interfaces exchange it: \<^verbatim>\<open>"HH:MM"\<close>, 24-hour and zero-padded, that is
  two digits, a colon and two digits, with the hour below 24 and the minute below 60.
\<close>

definition isTimeSlot :: "string \<Rightarrow> bool" where
  "isTimeSlot s =
     (case s of
        [h1, h2, c, m1, m2] \<Rightarrow>
          isDigit h1 \<and> isDigit h2 \<and> c = CHR '':'' \<and> isDigit m1 \<and> isDigit m2 \<and>
          digitVal h1 * 10 + digitVal h2 < 24 \<and> digitVal m1 * 10 + digitVal m2 < 60
      | _ \<Rightarrow> False)"

text \<open>
  The ids of the entries that the loop saves, read off its control flow: the loop stops
  at an entry whose service is missing, skips an entry for which no slot is open, and
  stops after the save at an entry whose user is missing.
\<close>

fun savedIds :: "date \<Rightarrow> formattedAppointment list \<Rightarrow> populatedEntry list \<Rightarrow> oid list" where
  "savedIds d fa [] = []"
| "savedIds d fa (pe # rest) =
     (case pe_service pe of
        None \<Rightarrow> []
      | Some svc \<Rightarrow>
          (case selectSlot (getAvailableTimeSlots d fa (duration svc))
                  (wl_preferredTimeSlots (pe_entry pe)) of
             None \<Rightarrow> savedIds d fa rest
           | Some selectedSlot \<Rightarrow>
               wl_id (pe_entry pe) #
                 (case pe_user pe of None \<Rightarrow> [] | Some usr \<Rightarrow> savedIds d fa rest)))"

definition passIds :: "world \<Rightarrow> date \<Rightarrow> oid list" where
  "passIds w d =
     (case formatAppointments (Service w) (activeAppointments w d) of
        Inl err \<Rightarrow> []
      | Inr fa \<Rightarrow> savedIds d fa (map (populateEntry w) (waitingEntries w d)))"

subsection \<open>A day with one open slot and two waiting entries\<close>

text \<open>
  Two appointments fill the day of instant 0 but for the half hour from 10:00; two
  entries wait for a 30-minute service on that day, the first created before the second.
\<close>

definition exService :: "oid \<rightharpoonup> service" where
  "exService = [1 \<mapsto> \<lparr>svc_name = ''Cut'', duration = 30\<rparr>,
                2 \<mapsto> \<lparr>svc_name = ''Colour'', duration = 60\<rparr>,
                3 \<mapsto> \<lparr>svc_name = ''Day'', duration = 450\<rparr>]"

definition exUser :: user where
  "exUser = \<lparr>usr_phone = Some ''+15550100'', usr_emailNotifications = False,
             usr_smsNotifications = True\<rparr>"

definition exEntry :: "oid \<Rightarrow> date \<Rightarrow> waitlistEntry" where
  "exEntry i created =
     \<lparr>wl_id = i, wl_userId = i, wl_serviceId = 1, wl_date = 0, wl_preferredTimeSlots = [],
      wl_status = waiting, wl_notifiedAt = None, wl_createdAt = created, wl_updatedAt = created\<rparr>"

definition exAppointment :: "oid \<Rightarrow> oid \<Rightarrow> string \<Rightarrow> appointment" where
  "exAppointment i svc slot =
     \<lparr>ap_id = i, ap_userId = 3, ap_serviceId = svc, ap_date = 0, ap_timeSlot = slot,
      ap_status = confirmed, ap_notes = None, ap_reminderSent = False, ap_createdAt = 1,
      ap_updatedAt = 1\<rparr>"

definition exWorld :: world where
  "exWorld =
     \<lparr>Waitlist = [exEntry 2 20, exEntry 1 10],
      Appointment = [exAppointment 1 2 ''09:00'', exAppointment 2 3 ''10:30''],
      Service = exService,
      User = [1 \<mapsto> exUser, 2 \<mapsto> exUser],
      events = []\<rparr>"

text \<open>The same day after the user of the first entry has been deleted.\<close>

definition exWorldDeletedUser :: world where
  "exWorldDeletedUser = exWorld\<lparr>User := [2 \<mapsto> exUser]\<rparr>"

definition failingClient :: twilio where
  "failingClient msg = None"

text \<open>The same day when the second entry waits for the 60-minute service.\<close>

definition exWorldLongService :: world where
  "exWorldLongService =
     exWorld\<lparr>Waitlist := [(exEntry 2 20)\<lparr>wl_serviceId := 2\<rparr>, exEntry 1 10]\<rparr>"

definition workingClient :: twilio where
  "workingClient msg = Some ''SM1''"

definition exFormatted :: "formattedAppointment list" where
  "exFormatted = [\<lparr>timeSlot = ''09:00'', serviceDuration = 60\<rparr>,
                  \<lparr>timeSlot = ''10:30'', serviceDuration = 450\<rparr>]"

subsection \<open>Kinds of events\<close>

fun isSmsRequest :: "event \<Rightarrow> bool" where
  "isSmsRequest (SmsRequested msg) = True"
| "isSmsRequest _ = False"

section \<open>The slot grid and the availability query\<close>

lemmas parse_simps = parseTimeSlot_def jsNumber_def trim_def isSpace_def unsignedDecimal_def
  isDigit_def decimalVal_def digitVal_def startMinutes_def

lemma grid_literal:
  "generateTimeSlots =
     [''09:00'', ''09:30'', ''10:00'', ''10:30'', ''11:00'', ''11:30'',
      ''12:00'', ''12:30'', ''13:00'', ''13:30'', ''14:00'', ''14:30'',
      ''15:00'', ''15:30'', ''16:00'', ''16:30'', ''17:00'', ''17:30'']"
  by code_simp

lemma grid_starts:
  "map startMinutes generateTimeSlots =
     map (\<lambda>i. Num (BUSINESS_HOURS_start * 60 + int i * TIME_SLOT_INTERVAL)) [0..<18]"
  by code_simp

lemma availableLoop_filter:
  "availableLoop ap dur slots acc = acc @ filter (\<lambda>s. isTimeSlotAvailable s ap dur) slots"
  by (induction slots arbitrary: acc) simp_all

lemma getAvailable_filter:
  "getAvailableTimeSlots d ap dur = filter (\<lambda>s. isTimeSlotAvailable s ap dur) generateTimeSlots"
  by (simp add: getAvailableTimeSlots_def availableLoop_filter)

lemma grid_parse:
  "s \<in> set generateTimeSlots \<Longrightarrow>
     \<exists>h m. parseTimeSlot s = (Num h, Num m) \<and> 9 \<le> h \<and> (m = 0 \<or> m = 30) \<and> h * 60 + m \<le> 1050"
  unfolding grid_literal by (auto simp: parse_simps)

lemma noConflict_member:
  "bk \<in> set appts \<Longrightarrow>
   overlaps s e (startMinutes (timeSlot bk)) (js_add (startMinutes (timeSlot bk)) (Num (serviceDuration bk))) \<Longrightarrow>
   \<not> noConflict s e appts"
  by (induction appts) (auto simp: Let_def)

lemma available_unfold:
  "parseTimeSlot slot = (Num h, Num m) \<Longrightarrow>
   isTimeSlotAvailable slot appts d =
     (BUSINESS_HOURS_start \<le> h \<and> h * 60 + m + d \<le> BUSINESS_HOURS_end * 60 \<and>
      noConflict (Num (h * 60 + m)) (Num (h * 60 + m + d)) appts)"
  by (auto simp: isTimeSlotAvailable_def Let_def)

lemma available_empty_grid:
  assumes "s \<in> set generateTimeSlots"
  shows "isTimeSlotAvailable s [] dur = (\<exists>t. startMinutes s = Num t \<and> t + dur \<le> BUSINESS_HOURS_end * 60)"
proof -
  from grid_parse [OF assms] obtain h m where
    p: "parseTimeSlot s = (Num h, Num m)" and h: "9 \<le> h" by blast
  show ?thesis
    using h by (simp add: available_unfold [OF p] startMinutes_def p BUSINESS_HOURS_start_def)
qed

section \<open>The availability checker\<close>

text \<open>
  Claim C2. Back-to-back bookings do not conflict. For an existing booking that occupies
  the minutes \<open>[a, b)\<close> (a positive duration) and a candidate of positive duration that
  starts at \<open>b\<close> and lies within business hours (its hour is not before the opening hour
  and its end is not after closing), \<open>isTimeSlotAvailable\<close> against that booking is true;
  in particular the candidate 09:30 of 30 minutes is available against a booking at 09:00
  of 30 minutes. A candidate whose start or whose end falls strictly inside the interval
  of one of the existing bookings is not available, for example 09:30 of 30 minutes
  against a booking at 09:00 of 60 minutes.
\<close>

theorem back_to_back_not_conflicting:
  "(\<forall>slot bk d h m ah am.
      parseTimeSlot slot = (Num h, Num m) \<and> parseTimeSlot (timeSlot bk) = (Num ah, Num am) \<and>
      0 < serviceDuration bk \<and> 0 < d \<and>
      h * 60 + m = ah * 60 + am + serviceDuration bk \<and>
      BUSINESS_HOURS_start \<le> h \<and> h * 60 + m + d \<le> BUSINESS_HOURS_end * 60
      \<longrightarrow> isTimeSlotAvailable slot [bk] d) \<and>
   isTimeSlotAvailable ''09:30'' [\<lparr>timeSlot = ''09:00'', serviceDuration = 30\<rparr>] 30 \<and>
   \<not> isTimeSlotAvailable ''09:30'' [\<lparr>timeSlot = ''09:00'', serviceDuration = 60\<rparr>] 30 \<and>
   (\<forall>slot appts d bk s a.
      bk \<in> set appts \<and> startMinutes slot = Num s \<and> startMinutes (timeSlot bk) = Num a \<and>
      ((a < s \<and> s < a + serviceDuration bk) \<or> (a < s + d \<and> s + d < a + serviceDuration bk))
      \<longrightarrow> \<not> isTimeSlotAvailable slot appts d)"
proof (intro conjI allI impI)
  fix slot and bk :: formattedAppointment and d h m ah am
  assume a: "parseTimeSlot slot = (Num h, Num m) \<and> parseTimeSlot (timeSlot bk) = (Num ah, Num am) \<and>
      0 < serviceDuration bk \<and> 0 < d \<and>
      h * 60 + m = ah * 60 + am + serviceDuration bk \<and>
      BUSINESS_HOURS_start \<le> h \<and> h * 60 + m + d \<le> BUSINESS_HOURS_end * 60"
  then have p: "parseTimeSlot slot = (Num h, Num m)" by simp
  show "isTimeSlotAvailable slot [bk] d"
    using a by (simp add: available_unfold [OF p] startMinutes_def overlaps_def)
next
  show "isTimeSlotAvailable ''09:30'' [\<lparr>timeSlot = ''09:00'', serviceDuration = 30\<rparr>] 30"
    by code_simp
next
  show "\<not> isTimeSlotAvailable ''09:30'' [\<lparr>timeSlot = ''09:00'', serviceDuration = 60\<rparr>] 30"
    by code_simp
next
  fix slot appts d and bk :: formattedAppointment and s a
  assume a: "bk \<in> set appts \<and> startMinutes slot = Num s \<and> startMinutes (timeSlot bk) = Num a \<and>
      ((a < s \<and> s < a + serviceDuration bk) \<or> (a < s + d \<and> s + d < a + serviceDuration bk))"
  show "\<not> isTimeSlotAvailable slot appts d"
  proof
  assume av: "isTimeSlotAvailable slot appts d"
  from a have bk: "bk \<in> set appts" by simp
  from a have "overlaps (Num s) (Num (s + d)) (startMinutes (timeSlot bk))
      (js_add (startMinutes (timeSlot bk)) (Num (serviceDuration bk)))"
    by (auto simp: overlaps_def)
  from noConflict_member [OF bk this] have "\<not> noConflict (Num s) (Num (s + d)) appts" .
  moreover from av a have "noConflict (Num s) (Num (s + d)) appts"
    by (auto simp: isTimeSlotAvailable_def Let_def startMinutes_def split: prod.splits if_splits)
  ultimately show False by simp
  qed
qed

theorem back_to_back_not_conflicting_witness:
  "parseTimeSlot ''10:00'' = (Num 10, Num 0) \<and> parseTimeSlot ''09:15'' = (Num 9, Num 15) \<and>
   isTimeSlotAvailable ''10:00'' [\<lparr>timeSlot = ''09:15'', serviceDuration = 45\<rparr>] 20 \<and>
   \<not> isTimeSlotAvailable ''10:00''
        [\<lparr>timeSlot = ''11:00'', serviceDuration = 30\<rparr>, \<lparr>timeSlot = ''09:15'', serviceDuration = 50\<rparr>] 20"
proof -
  have p1: "parseTimeSlot ''10:00'' = (Num 10, Num 0)" by (simp add: parse_simps)
  have p2: "parseTimeSlot ''09:15'' = (Num 9, Num 15)" by (simp add: parse_simps)
  have s1: "startMinutes ''10:00'' = Num 600" by (simp add: parse_simps)
  have s2: "startMinutes ''09:15'' = Num 555" by (simp add: parse_simps)
  note t = back_to_back_not_conflicting
  have a: "isTimeSlotAvailable ''10:00'' [\<lparr>timeSlot = ''09:15'', serviceDuration = 45\<rparr>] 20"
    using t [THEN conjunct1, rule_format,
        of "''10:00''" 10 0 "\<lparr>timeSlot = ''09:15'', serviceDuration = 45\<rparr>" 9 15 20] p1 p2
    by (simp add: BUSINESS_HOURS_start_def BUSINESS_HOURS_end_def)
  have b: "\<not> isTimeSlotAvailable ''10:00''
        [\<lparr>timeSlot = ''11:00'', serviceDuration = 30\<rparr>, \<lparr>timeSlot = ''09:15'', serviceDuration = 50\<rparr>] 20"
    using t [THEN conjunct2, THEN conjunct2, THEN conjunct2, rule_format,
        of "\<lparr>timeSlot = ''09:15'', serviceDuration = 50\<rparr>"
           "[\<lparr>timeSlot = ''11:00'', serviceDuration = 30\<rparr>, \<lparr>timeSlot = ''09:15'', serviceDuration = 50\<rparr>]"
           "''10:00''" 600 555 20] s1 s2
    by simp
  show ?thesis using p1 p2 a b by simp
qed

text \<open>On a time slot the pieces of the string are read as the hour and the minute.\<close>

lemma digit_facts:
  "isDigit c \<Longrightarrow>
     \<not> isSpace c \<and> c \<noteq> CHR '':'' \<and> c \<noteq> CHR ''-'' \<and> c \<noteq> CHR ''+'' \<and>
     0 \<le> digitVal c \<and> digitVal c \<le> 9"
  by (auto simp: isDigit_def isSpace_def digitVal_def)

lemma jsNumber_two_digits:
  assumes "isDigit a" and "isDigit b"
  shows "jsNumber [a, b] = Num (digitVal a * 10 + digitVal b)"
  using assms digit_facts [of a] digit_facts [of b]
  by (simp add: jsNumber_def trim_def unsignedDecimal_def decimalVal_def)

lemma isTimeSlot_parse:
  assumes "isTimeSlot s"
  shows "\<exists>h m. parseTimeSlot s = (Num h, Num m) \<and> 0 \<le> h \<and> h < 24 \<and> 0 \<le> m \<and> m < 60"
proof -
  from assms obtain h1 h2 m1 m2 where
    s: "s = [h1, h2, CHR '':'', m1, m2]" and
    d: "isDigit h1" "isDigit h2" "isDigit m1" "isDigit m2" and
    r: "digitVal h1 * 10 + digitVal h2 < 24" "digitVal m1 * 10 + digitVal m2 < 60"
    by (auto simp: isTimeSlot_def split: list.splits)
  from d have sp: "split CHR '':'' s = [[h1, h2], [m1, m2]]"
    using digit_facts [of h1] digit_facts [of h2] digit_facts [of m1] digit_facts [of m2]
    by (simp add: s)
  have "parseTimeSlot s =
      (Num (digitVal h1 * 10 + digitVal h2), Num (digitVal m1 * 10 + digitVal m2))"
    by (simp add: parseTimeSlot_def sp jsNumber_two_digits d)
  moreover have "0 \<le> digitVal h1 * 10 + digitVal h2" "0 \<le> digitVal m1 * 10 + digitVal m2"
    using digit_facts [of h1] digit_facts [of h2] digit_facts [of m1] digit_facts [of m2] d
    by simp_all
  ultimately show ?thesis using r by blast
qed

text \<open>
  Claim C3. For every candidate time slot (\<^verbatim>\<open>"HH:MM"\<close>, 24-hour, zero-padded), whatever the
  existing bookings and the duration: the candidate has a start minute, and when that
  start minute is before the opening minute (start hour times 60) or its end minute
  (start plus duration) is after the closing minute (end hour times 60),
  \<open>isTimeSlotAvailable\<close> returns false. In particular 17:45 with 30 minutes is rejected.
  The code tests the hour of the candidate against the opening hour; for a time slot the
  minute part is not negative, so this rejects every start minute before opening.
\<close>

theorem outside_business_hours_rejected:
  "(\<forall>slot appts d.
      isTimeSlot slot \<longrightarrow>
      (\<exists>s. startMinutes slot = Num s \<and> 0 \<le> s \<and> s < 24 * 60 \<and>
           (s < BUSINESS_HOURS_start * 60 \<or> BUSINESS_HOURS_end * 60 < s + d
            \<longrightarrow> \<not> isTimeSlotAvailable slot appts d))) \<and>
   isTimeSlot ''17:45'' \<and>
   (\<forall>appts. \<not> isTimeSlotAvailable ''17:45'' appts 30)"
proof (intro conjI allI impI)
  fix slot appts d
  assume "isTimeSlot slot"
  from isTimeSlot_parse [OF this] obtain h m where
    p: "parseTimeSlot slot = (Num h, Num m)" and
    b: "0 \<le> h" "h < 24" "0 \<le> m" "m < 60" by blast
  have st: "startMinutes slot = Num (h * 60 + m)" by (simp add: startMinutes_def p)
  have rej: "\<not> isTimeSlotAvailable slot appts d"
    if "h * 60 + m < BUSINESS_HOURS_start * 60 \<or> BUSINESS_HOURS_end * 60 < h * 60 + m + d"
  proof -
    from that b have "h < BUSINESS_HOURS_start \<or> BUSINESS_HOURS_end * 60 < h * 60 + m + d"
      by arith
    then show ?thesis by (auto simp: available_unfold [OF p])
  qed
  show "\<exists>s. startMinutes slot = Num s \<and> 0 \<le> s \<and> s < 24 * 60 \<and>
           (s < BUSINESS_HOURS_start * 60 \<or> BUSINESS_HOURS_end * 60 < s + d
            \<longrightarrow> \<not> isTimeSlotAvailable slot appts d)"
    using st b rej by (intro exI [of _ "h * 60 + m"]) auto
next
  show "isTimeSlot ''17:45''" by code_simp
next
  fix appts
  have "parseTimeSlot ''17:45'' = (Num 17, Num 45)" by (simp add: parse_simps)
  then show "\<not> isTimeSlotAvailable ''17:45'' appts 30"
    by (simp add: isTimeSlotAvailable_def Let_def BUSINESS_HOURS_end_def)
qed

theorem outside_business_hours_rejected_witness:
  "isTimeSlot ''08:30'' \<and> startMinutes ''08:30'' = Num 510 \<and>
   \<not> isTimeSlotAvailable ''08:30'' [] 30 \<and>
   isTimeSlot ''17:30'' \<and> startMinutes ''17:30'' = Num 1050 \<and>
   \<not> isTimeSlotAvailable ''17:30'' [\<lparr>timeSlot = ''09:00'', serviceDuration = 30\<rparr>] 45"
proof -
  note t = outside_business_hours_rejected [THEN conjunct1, rule_format]
  have i1: "isTimeSlot ''08:30''" and i2: "isTimeSlot ''17:30''" by code_simp+
  have s1: "startMinutes ''08:30'' = Num 510" and s2: "startMinutes ''17:30'' = Num 1050"
    by code_simp+
  from t [OF i1, of 30 "[]"] s1
  have a: "\<not> isTimeSlotAvailable ''08:30'' [] 30"
    by (auto simp: BUSINESS_HOURS_start_def)
  from t [OF i2, of 45 "[\<lparr>timeSlot = ''09:00'', serviceDuration = 30\<rparr>]"] s2
  have b: "\<not> isTimeSlotAvailable ''17:30'' [\<lparr>timeSlot = ''09:00'', serviceDuration = 30\<rparr>] 45"
    by (auto simp: BUSINESS_HOURS_end_def)
  from i1 i2 s1 s2 a b show ?thesis by simp
qed

text \<open>
  Claim C4. \<open>generateTimeSlots\<close> returns the zero-padded slots from 09:00 to 17:30 in
  ascending order: their number is (end - start) * 60 / interval = 18, the first is 09:00,
  the last is 17:30, slot \<open>i\<close> starts at minute start * 60 + i * interval, and one interval
  after the last slot is the closing minute, so the slots cover the business hours.
\<close>

theorem generateTimeSlots_grid:
  "generateTimeSlots =
     [''09:00'', ''09:30'', ''10:00'', ''10:30'', ''11:00'', ''11:30'',
      ''12:00'', ''12:30'', ''13:00'', ''13:30'', ''14:00'', ''14:30'',
      ''15:00'', ''15:30'', ''16:00'', ''16:30'', ''17:00'', ''17:30''] \<and>
   int (length generateTimeSlots) =
     ((BUSINESS_HOURS_end - BUSINESS_HOURS_start) * 60) div TIME_SLOT_INTERVAL \<and>
   length generateTimeSlots = 18 \<and>
   hd generateTimeSlots = ''09:00'' \<and>
   last generateTimeSlots = ''17:30'' \<and>
   map startMinutes generateTimeSlots =
     map (\<lambda>i. Num (BUSINESS_HOURS_start * 60 + int i * TIME_SLOT_INTERVAL)) [0..<18] \<and>
   BUSINESS_HOURS_start * 60 + 18 * TIME_SLOT_INTERVAL = BUSINESS_HOURS_end * 60"
proof -
  have l: "length generateTimeSlots = 18" by (simp add: grid_literal)
  have n: "int (length generateTimeSlots) =
     ((BUSINESS_HOURS_end - BUSINESS_HOURS_start) * 60) div TIME_SLOT_INTERVAL"
    by (simp add: l BUSINESS_HOURS_end_def BUSINESS_HOURS_start_def TIME_SLOT_INTERVAL_def)
  have h: "hd generateTimeSlots = ''09:00''" by (simp add: grid_literal)
  have t: "last generateTimeSlots = ''17:30''" by (simp add: grid_literal)
  have c: "BUSINESS_HOURS_start * 60 + 18 * TIME_SLOT_INTERVAL = BUSINESS_HOURS_end * 60"
    by (simp add: BUSINESS_HOURS_end_def BUSINESS_HOURS_start_def TIME_SLOT_INTERVAL_def)
  show ?thesis using grid_literal n l h t grid_starts c by blast
qed

text \<open>
  Claim C5, as stated, fails for a service longer than one interval: with no bookings and
  a duration of 60 minutes the slot 17:30 would end after closing and is left out.
\<close>

theorem later_slots_lost_for_long_service:
  "getAvailableTimeSlots 0 [] 60 \<noteq> generateTimeSlots"
  by code_simp

text \<open>
  Claim C5, amended. With no existing bookings \<open>getAvailableTimeSlots\<close> returns the slots of
  the grid that end by closing time; this is the full grid exactly when the duration is
  at most one slot interval (30 minutes). For every input the result is a subsequence of
  the grid, in grid order, and the empty list is a possible result: a booking that
  occupies the whole day leaves no slot.
\<close>

theorem getAvailableTimeSlots_empty_day_and_order:
  "((getAvailableTimeSlots d [] dur = generateTimeSlots) = (dur \<le> TIME_SLOT_INTERVAL)) \<and>
   getAvailableTimeSlots d [] dur =
     filter (\<lambda>s. \<exists>t. startMinutes s = Num t \<and> t + dur \<le> BUSINESS_HOURS_end * 60) generateTimeSlots \<and>
   subseq (getAvailableTimeSlots d appts dur) generateTimeSlots \<and>
   getAvailableTimeSlots d [\<lparr>timeSlot = ''09:00'', serviceDuration = 540\<rparr>] dur = []"
proof -
  have full: "(getAvailableTimeSlots d [] dur = generateTimeSlots) = (dur \<le> TIME_SLOT_INTERVAL)"
  proof
    assume "getAvailableTimeSlots d [] dur = generateTimeSlots"
    then have "\<forall>s\<in>set generateTimeSlots. isTimeSlotAvailable s [] dur"
      by (simp add: getAvailable_filter filter_id_conv)
    moreover have "''17:30'' \<in> set generateTimeSlots" by (simp add: grid_literal)
    ultimately have "isTimeSlotAvailable ''17:30'' [] dur" by blast
    moreover have "parseTimeSlot ''17:30'' = (Num 17, Num 30)" by (simp add: parse_simps)
    ultimately show "dur \<le> TIME_SLOT_INTERVAL"
      by (simp add: available_unfold BUSINESS_HOURS_end_def TIME_SLOT_INTERVAL_def)
  next
    assume le: "dur \<le> TIME_SLOT_INTERVAL"
    have "isTimeSlotAvailable s [] dur" if "s \<in> set generateTimeSlots" for s
    proof -
      from grid_parse [OF that] obtain h m where
        p: "parseTimeSlot s = (Num h, Num m)" and h: "9 \<le> h" and b: "h * 60 + m \<le> 1050"
        by blast
      show ?thesis
        using h b le
        by (simp add: available_unfold [OF p] BUSINESS_HOURS_start_def BUSINESS_HOURS_end_def
            TIME_SLOT_INTERVAL_def)
    qed
    then show "getAvailableTimeSlots d [] dur = generateTimeSlots"
      by (simp add: getAvailable_filter filter_id_conv)
  qed
  have fits: "getAvailableTimeSlots d [] dur =
     filter (\<lambda>s. \<exists>t. startMinutes s = Num t \<and> t + dur \<le> BUSINESS_HOURS_end * 60) generateTimeSlots"
    unfolding getAvailable_filter
    by (rule filter_cong [OF refl]) (rule available_empty_grid)
  have sub: "subseq (getAvailableTimeSlots d appts dur) generateTimeSlots"
    by (simp add: getAvailable_filter)
  have none: "getAvailableTimeSlots d [\<lparr>timeSlot = ''09:00'', serviceDuration = 540\<rparr>] dur = []"
  proof -
    have s9: "startMinutes ''09:00'' = Num 540" by (simp add: parse_simps)
    have "\<not> isTimeSlotAvailable s [\<lparr>timeSlot = ''09:00'', serviceDuration = 540\<rparr>] dur"
      if "s \<in> set generateTimeSlots" for s
    proof -
      from grid_parse [OF that] obtain h m where
        p: "parseTimeSlot s = (Num h, Num m)" and h: "9 \<le> h" and m: "m = 0 \<or> m = 30"
        and b: "h * 60 + m \<le> 1050"
        by blast
      show ?thesis
        using h m b by (auto simp: available_unfold [OF p] s9 overlaps_def)
    qed
    then show ?thesis by (simp add: getAvailable_filter filter_empty_conv)
  qed
  show ?thesis using full fits sub none by blast
qed

text \<open>
  Claim C10. \<open>getAvailableTimeSlots\<close> ignores its date argument: for two dates and the same
  bookings and duration the results are equal.
\<close>

theorem getAvailableTimeSlots_ignores_date:
  "getAvailableTimeSlots d1 existingAppointments dur =
   getAvailableTimeSlots d2 existingAppointments dur"
  by (simp add: getAvailableTimeSlots_def)

section \<open>The choice of the slot\<close>

lemma preferredLoop_first:
  "p \<in> set avail \<Longrightarrow> \<forall>q\<in>set before. q \<notin> set avail \<Longrightarrow>
   preferredLoop avail (before @ p # after) sel = p"
  by (induction before) simp_all

lemma preferredLoop_none:
  "\<forall>q\<in>set prefs. q \<notin> set avail \<Longrightarrow> preferredLoop avail prefs sel = sel"
  by (induction prefs) simp_all

text \<open>
  Claim C6. The selected slot is the first preferred slot, in listed order, that is among
  the available slots; when no preferred slot is available, or none is listed, it is the
  first available slot. The SMS request that the loop body makes for a notified entry
  carries the selected slot.
\<close>

theorem selected_slot_first_preference_or_earliest:
  "(\<forall>avail before p after.
      p \<in> set avail \<and> (\<forall>q\<in>set before. q \<notin> set avail)
      \<longrightarrow> selectSlot avail (before @ p # after) = Some p) \<and>
   (\<forall>first others prefs.
      (\<forall>q\<in>set prefs. q \<notin> set (first # others))
      \<longrightarrow> selectSlot (first # others) prefs = Some first) \<and>
   (\<forall>client now d fa pe w svc usr ph sel.
      pe_service pe = Some svc \<and> pe_user pe = Some usr \<and> usr_smsNotifications usr \<and>
      usr_phone usr = Some ph \<and> ph \<noteq> [] \<and>
      selectSlot (getAvailableTimeSlots d fa (duration svc))
        (wl_preferredTimeSlots (pe_entry pe)) = Some sel
      \<longrightarrow> filter isSmsRequest
            (drop (length (events w)) (events (fst (processEntry client now d fa pe w)))) =
          [SmsRequested \<lparr>sms_to = ph, sms_serviceName = svc_name svc, sms_date = d,
                          sms_slot = sel\<rparr>])"
proof (intro conjI allI impI)
  fix avail before :: "string list" and p after
  assume a: "p \<in> set avail \<and> (\<forall>q\<in>set before. q \<notin> set avail)"
  then obtain first others where av: "avail = first # others" by (cases avail) auto
  from a have "preferredLoop avail (before @ p # after) first = p"
    by (simp add: preferredLoop_first)
  then show "selectSlot avail (before @ p # after) = Some p"
    by (simp add: av)
next
  fix first :: string and others prefs :: "string list"
  assume "\<forall>q\<in>set prefs. q \<notin> set (first # others)"
  then show "selectSlot (first # others) prefs = Some first"
    by (simp add: preferredLoop_none del: set_simps)
next
  fix client now d fa and pe :: populatedEntry and w :: world and svc :: service
    and usr :: user and ph sel
  assume "pe_service pe = Some svc \<and> pe_user pe = Some usr \<and> usr_smsNotifications usr \<and>
      usr_phone usr = Some ph \<and> ph \<noteq> [] \<and>
      selectSlot (getAvailableTimeSlots d fa (duration svc))
        (wl_preferredTimeSlots (pe_entry pe)) = Some sel"
  then show "filter isSmsRequest
            (drop (length (events w)) (events (fst (processEntry client now d fa pe w)))) =
          [SmsRequested \<lparr>sms_to = ph, sms_serviceName = svc_name svc, sms_date = d,
                          sms_slot = sel\<rparr>]"
    by (auto simp: processEntry_def saveWaitlist_def sendWaitlistNotificationSMS_def Let_def
        split: option.splits)
qed

theorem selected_slot_first_preference_or_earliest_witness:
  "selectSlot [''09:00'', ''10:30''] [''10:00'', ''10:30''] = Some ''10:30'' \<and>
   selectSlot [''09:00'', ''10:30''] [''11:00''] = Some ''09:00'' \<and>
   selectSlot [''09:00'', ''10:30''] [] = Some ''09:00'' \<and>
   filter isSmsRequest
     (drop (length (events exWorld))
        (events (fst (processEntry failingClient 100 0 exFormatted
                        (populateEntry exWorld (exEntry 1 10)) exWorld)))) =
     [SmsRequested \<lparr>sms_to = ''+15550100'', sms_serviceName = ''Cut'', sms_date = 0,
                     sms_slot = ''10:00''\<rparr>]"
proof -
  note t = selected_slot_first_preference_or_earliest
  have a: "selectSlot [''09:00'', ''10:30''] ([''10:00''] @ ''10:30'' # []) = Some ''10:30''"
    by (rule t [THEN conjunct1, rule_format]) simp
  have b: "selectSlot (''09:00'' # [''10:30'']) [''11:00''] = Some ''09:00''"
    by (rule t [THEN conjunct2, THEN conjunct1, rule_format]) simp
  have c: "selectSlot (''09:00'' # [''10:30'']) [] = Some ''09:00''"
    by (rule t [THEN conjunct2, THEN conjunct1, rule_format]) simp
  have s: "selectSlot (getAvailableTimeSlots 0 exFormatted 30) [] = Some ''10:00''"
    by code_simp
  have d: "filter isSmsRequest
     (drop (length (events exWorld))
        (events (fst (processEntry failingClient 100 0 exFormatted
                        (populateEntry exWorld (exEntry 1 10)) exWorld)))) =
     [SmsRequested \<lparr>sms_to = ''+15550100'', sms_serviceName = ''Cut'', sms_date = 0,
                     sms_slot = ''10:00''\<rparr>]"
    using t [THEN conjunct2, THEN conjunct2, rule_format,
        where pe = "populateEntry exWorld (exEntry 1 10)"
          and svc = "\<lparr>svc_name = ''Cut'', duration = 30\<rparr>"
          and usr = exUser and ph = "''+15550100''" and d = 0 and fa = exFormatted
          and sel = "''10:00''" and client = failingClient and now = 100 and w = exWorld] s
    by (simp add: populateEntry_def exWorld_def exService_def exEntry_def exUser_def)
  show ?thesis using a b c d by simp
qed


section \<open>What a reconciliation pass does to the store\<close>

lemma markIds_empty: "markIds now {} xs = xs"
  by (simp add: markIds_def)

lemma markIds_insert:
  "markIds now S (markIds now {i} xs) = markIds now (insert i S) xs"
  by (auto simp: markIds_def notifyDoc_def)

lemma saveWaitlist_notify:
  "saveWaitlist n (e\<lparr>wl_status := notified, wl_notifiedAt := Some n\<rparr>) w =
     w\<lparr>Waitlist := markIds n {wl_id e} (Waitlist w),
       events := events w @ [WaitlistSaved (wl_id e)]\<rparr>"
  by (simp add: saveWaitlist_def markIds_def notifyDoc_def cong: if_cong)

text \<open>What one step of the loop does to the collections.\<close>

lemma processEntry_store:
  "Waitlist (fst (processEntry c n d fa pe w)) =
     markIds n (set (case pe_service pe of None \<Rightarrow> []
        | Some svc \<Rightarrow> (case selectSlot (getAvailableTimeSlots d fa (duration svc))
                             (wl_preferredTimeSlots (pe_entry pe)) of
                         None \<Rightarrow> [] | Some sel \<Rightarrow> [wl_id (pe_entry pe)]))) (Waitlist w)"
  "Appointment (fst (processEntry c n d fa pe w)) = Appointment w"
  "Service (fst (processEntry c n d fa pe w)) = Service w"
  "User (fst (processEntry c n d fa pe w)) = User w"
  by (auto simp: processEntry_def saveWaitlist_notify Let_def markIds_empty
      split: option.splits)

lemma forEntries_store:
  "Waitlist (fst (forEntries c n d fa pes w)) = markIds n (set (savedIds d fa pes)) (Waitlist w) \<and>
   Appointment (fst (forEntries c n d fa pes w)) = Appointment w \<and>
   Service (fst (forEntries c n d fa pes w)) = Service w \<and>
   User (fst (forEntries c n d fa pes w)) = User w"
proof (induction pes arbitrary: w)
  case Nil
  show ?case by (simp add: markIds_empty)
next
  case (Cons pe rest)
  obtain w1 err where step: "processEntry c n d fa pe w = (w1, err)" by (cases "processEntry c n d fa pe w")
  have st: "Waitlist w1 =
     markIds n (set (case pe_service pe of None \<Rightarrow> []
        | Some svc \<Rightarrow> (case selectSlot (getAvailableTimeSlots d fa (duration svc))
                             (wl_preferredTimeSlots (pe_entry pe)) of
                         None \<Rightarrow> [] | Some sel \<Rightarrow> [wl_id (pe_entry pe)]))) (Waitlist w)"
    "Appointment w1 = Appointment w" "Service w1 = Service w" "User w1 = User w"
    using processEntry_store [of c n d fa pe w] by (simp_all add: step)
  show ?case
  proof (cases err)
    case (Some e)
    then have "forEntries c n d fa (pe # rest) w = (w1, Some e)" by (simp add: step)
    moreover have "set (savedIds d fa (pe # rest)) = set (case pe_service pe of None \<Rightarrow> []
        | Some svc \<Rightarrow> (case selectSlot (getAvailableTimeSlots d fa (duration svc))
                             (wl_preferredTimeSlots (pe_entry pe)) of
                         None \<Rightarrow> [] | Some sel \<Rightarrow> [wl_id (pe_entry pe)]))"
      using step Some
      by (auto simp: processEntry_def Let_def split: option.splits if_splits)
    ultimately show ?thesis using st by simp
  next
    case None
    then have fe: "forEntries c n d fa (pe # rest) w = forEntries c n d fa rest w1" by (simp add: step)
    show ?thesis
    proof (cases "pe_service pe")
      case None
      with step \<open>err = None\<close> show ?thesis by (simp add: processEntry_def)
    next
      case (Some svc)
      show ?thesis
      proof (cases "selectSlot (getAvailableTimeSlots d fa (duration svc)) (wl_preferredTimeSlots (pe_entry pe))")
        case None
        then show ?thesis unfolding fe using Cons.IH [of w1] st Some by (simp add: markIds_empty)
      next
        case (Some sel)
        with step \<open>err = None\<close> \<open>pe_service pe = Some svc\<close> obtain usr where "pe_user pe = Some usr"
          by (auto simp: processEntry_def Let_def split: option.splits)
        then show ?thesis unfolding fe using Cons.IH [of w1] st Some \<open>pe_service pe = Some svc\<close>
          by (simp add: markIds_insert)
      qed
    qed
  qed
qed

lemma updateWaitlistForDate_store:
  "Waitlist (updateWaitlistForDate c n w d) = markIds n (set (passIds w d)) (Waitlist w) \<and>
   Appointment (updateWaitlistForDate c n w d) = Appointment w \<and>
   Service (updateWaitlistForDate c n w d) = Service w \<and>
   User (updateWaitlistForDate c n w d) = User w"
proof (cases "formatAppointments (Service w) (activeAppointments w d)")
  case (Inl e)
  then show ?thesis by (simp add: updateWaitlistForDate_def passIds_def Let_def markIds_empty)
next
  case (Inr fa)
  let ?pes = "map (populateEntry w) (waitingEntries w d)"
  obtain w' err where r: "forEntries c n d fa ?pes w = (w', err)" by (cases "forEntries c n d fa ?pes w")
  from forEntries_store [of c n d fa ?pes w] r
  have st: "Waitlist w' = markIds n (set (savedIds d fa ?pes)) (Waitlist w)"
    "Appointment w' = Appointment w" "Service w' = Service w" "User w' = User w" by simp_all
  show ?thesis
  proof (cases "waitingEntries w d = []")
    case True
    then show ?thesis by (simp add: updateWaitlistForDate_def passIds_def Let_def markIds_empty Inr)
  next
    case False
    then show ?thesis using st r
      by (cases err) (simp_all add: updateWaitlistForDate_def passIds_def Let_def Inr)
  qed
qed


lemma set_waitingEntries:
  "set (waitingEntries w d) =
     {e \<in> set (Waitlist w). sameDay d (wl_date e) \<and> wl_status e = waiting}"
  by (auto simp: waitingEntries_def sameDay_def)

lemma savedIds_subset: "set (savedIds d fa pes) \<subseteq> (\<lambda>p. wl_id (pe_entry p)) ` set pes"
  by (induction pes) (auto split: option.splits)

lemma passIds_subset: "set (passIds w d) \<subseteq> wl_id ` set (waitingEntries w d)"
proof (cases "formatAppointments (Service w) (activeAppointments w d)")
  case (Inl e)
  then show ?thesis by (simp add: passIds_def)
next
  case (Inr fa)
  have "(\<lambda>p. wl_id (pe_entry p)) ` set (map (populateEntry w) (waitingEntries w d))
          = wl_id ` set (waitingEntries w d)"
    by (auto simp: populateEntry_def image_iff)
  with savedIds_subset [of d fa "map (populateEntry w) (waitingEntries w d)"] Inr
  show ?thesis by (simp add: passIds_def)
qed

lemma passIds_waiting:
  assumes "distinct (map wl_id (Waitlist w))" and "x \<in> set (Waitlist w)"
    and "wl_id x \<in> set (passIds w d)"
  shows "wl_status x = waiting \<and> sameDay d (wl_date x)"
proof -
  from assms(3) passIds_subset obtain e where
    e: "e \<in> set (waitingEntries w d)" and i: "wl_id e = wl_id x" by (metis imageE subsetD)
  from e have m: "e \<in> set (Waitlist w)" and p: "wl_status e = waiting \<and> sameDay d (wl_date e)"
    by (simp_all add: set_waitingEntries)
  from assms(1) have "inj_on wl_id (set (Waitlist w))" by (simp add: distinct_map)
  with m assms(2) i have "e = x" by (simp add: inj_on_def)
  with p show ?thesis by simp
qed

text \<open>
  Claim C8. A pass never creates or modifies an appointment (nor a service or a user),
  and it creates or deletes no waitlist entry. Every stored waitlist entry is either
  unchanged by the pass, or it entered the pass with status \<open>waiting\<close> on the day of the
  pass and the pass saved it as notified: status \<open>notified\<close>, \<open>notifiedAt\<close> stamped, and
  \<open>updatedAt\<close> refreshed by the schema's save hook. So entries in any other status are
  unchanged. Ids are unique in the collection, as the data store guarantees.
\<close>

theorem pass_touches_only_waiting_entries:
  assumes "distinct (map wl_id (Waitlist w))"
  shows "Appointment (updateWaitlistForDate client now w d) = Appointment w \<and>
         Service (updateWaitlistForDate client now w d) = Service w \<and>
         User (updateWaitlistForDate client now w d) = User w \<and>
         list_all2
           (\<lambda>x y. y = x \<or> (wl_status x = waiting \<and> sameDay d (wl_date x) \<and> y = notifyDoc now x))
           (Waitlist w) (Waitlist (updateWaitlistForDate client now w d))"
proof -
  note st = updateWaitlistForDate_store [of client now w d]
  have "list_all2
           (\<lambda>x y. y = x \<or> (wl_status x = waiting \<and> sameDay d (wl_date x) \<and> y = notifyDoc now x))
           (Waitlist w) (markIds now (set (passIds w d)) (Waitlist w))"
    unfolding markIds_def list.rel_map
    by (rule list.rel_refl_strong) (use passIds_waiting [OF assms] in auto)
  with st show ?thesis by simp
qed

theorem pass_touches_only_waiting_entries_witness:
  "distinct (map wl_id (Waitlist exWorld)) \<and>
   Appointment (updateWaitlistForDate workingClient 100 exWorld 0) = Appointment exWorld \<and>
   list_all2
     (\<lambda>x y. y = x \<or> (wl_status x = waiting \<and> sameDay 0 (wl_date x) \<and> y = notifyDoc 100 x))
     (Waitlist exWorld) (Waitlist (updateWaitlistForDate workingClient 100 exWorld 0))"
proof -
  have d: "distinct (map wl_id (Waitlist exWorld))" by (simp add: exWorld_def exEntry_def)
  from pass_touches_only_waiting_entries [OF d, of workingClient 100 0] d show ?thesis by simp
qed

lemma statusOf_markIds:
  "distinct (map wl_id xs) \<Longrightarrow> x \<in> set xs \<Longrightarrow>
   map_of (map (\<lambda>y. (wl_id y, wl_status y)) (markIds n S xs)) (wl_id x) =
     Some (if wl_id x \<in> S then notified else wl_status x)"
  by (induction xs) (auto simp: markIds_def notifyDoc_def image_iff)

lemma distinct_waiting:
  "distinct (map wl_id (Waitlist w)) \<Longrightarrow> distinct (map wl_id (waitingEntries w d))"
  by (auto simp: waitingEntries_def distinct_map intro: inj_on_subset)

lemma filter_markIds:
  "(\<And>e. P (notifyDoc n e) = False) \<Longrightarrow>
   filter P (markIds n S xs) = filter (\<lambda>e. wl_id e \<notin> S) (filter P xs)"
  by (induction xs) (auto simp: markIds_def)

lemma waitingEntries_markIds:
  assumes "Waitlist w1 = markIds n S (Waitlist w)"
  shows "waitingEntries w1 d = filter (\<lambda>e. wl_id e \<notin> S) (waitingEntries w d)"
  unfolding waitingEntries_def assms
  by (subst filter_markIds) (simp_all add: notifyDoc_def filter_sort)

lemma noop_on_rest:
  assumes "distinct (map (\<lambda>p. wl_id (pe_entry p)) pes)" and "\<forall>p\<in>set pes. pe_user p \<noteq> None"
  shows "\<exists>err. forEntries c n d fa
            (filter (\<lambda>p. wl_id (pe_entry p) \<notin> set (savedIds d fa pes)) pes) w = (w, err)"
  using assms
proof (induction pes)
  case Nil
  show ?case by simp
next
  case (Cons pe rest)
  from Cons.prems have dr: "distinct (map (\<lambda>p. wl_id (pe_entry p)) rest)"
    and ur: "\<forall>p\<in>set rest. pe_user p \<noteq> None"
    and fresh: "wl_id (pe_entry pe) \<notin> (\<lambda>p. wl_id (pe_entry p)) ` set rest" by auto
  from Cons.IH [OF dr ur] obtain err where
    ih: "forEntries c n d fa
           (filter (\<lambda>p. wl_id (pe_entry p) \<notin> set (savedIds d fa rest)) rest) w = (w, err)" ..
  from fresh savedIds_subset [of d fa rest]
  have notin: "wl_id (pe_entry pe) \<notin> set (savedIds d fa rest)" by blast
  show ?case
  proof (cases "pe_service pe")
    case None
    then show ?thesis by (simp add: processEntry_def)
  next
    case (Some svc)
    show ?thesis
    proof (cases "selectSlot (getAvailableTimeSlots d fa (duration svc)) (wl_preferredTimeSlots (pe_entry pe))")
      case None
      with Some notin ih show ?thesis by (simp add: processEntry_def)
    next
      case (Some sel)
      from Cons.prems obtain usr where u: "pe_user pe = Some usr" by auto
      have "filter (\<lambda>p. wl_id (pe_entry p) \<noteq> wl_id (pe_entry pe) \<and>
                        wl_id (pe_entry p) \<notin> set (savedIds d fa rest)) rest =
            filter (\<lambda>p. wl_id (pe_entry p) \<notin> set (savedIds d fa rest)) rest"
        by (rule filter_cong [OF refl]) (use fresh in \<open>auto simp: image_iff\<close>)
      with Some \<open>pe_service pe = Some svc\<close> u ih show ?thesis by simp
    qed
  qed
qed

section \<open>Order and outcome of a pass\<close>

text \<open>
  Claim C1, as stated, fails: a notification reserves nothing. On a day with one open
  half hour (10:00) and two entries waiting for a 30-minute service, created at different
  times, the pass notifies the earlier entry and the later entry, both for 10:00.
\<close>

theorem later_entry_notified_for_the_same_slot:
  "waitingEntries exWorld 0 = [exEntry 1 10, exEntry 2 20] \<and>
   wl_createdAt (exEntry 1 10) < wl_createdAt (exEntry 2 20) \<and>
   formatAppointments (Service exWorld) (activeAppointments exWorld 0) = Inr exFormatted \<and>
   getAvailableTimeSlots 0 exFormatted 30 = [''10:00''] \<and>
   statusOf (updateWaitlistForDate workingClient 100 exWorld 0) 1 = Some notified \<and>
   statusOf (updateWaitlistForDate workingClient 100 exWorld 0) 2 = Some notified \<and>
   filter isSmsRequest (events (updateWaitlistForDate workingClient 100 exWorld 0)) =
     [SmsRequested \<lparr>sms_to = ''+15550100'', sms_serviceName = ''Cut'', sms_date = 0,
                     sms_slot = ''10:00''\<rparr>,
      SmsRequested \<lparr>sms_to = ''+15550100'', sms_serviceName = ''Cut'', sms_date = 0,
                     sms_slot = ''10:00''\<rparr>]"
  by code_simp

text \<open>
  Claim C1, amended. On a day with exactly two waiting entries, created at different
  times, whose users and services exist, and exactly one slot open for the service of
  the earlier entry, the earlier entry ends the pass notified; the later entry ends the
  pass notified as well when some slot is open for its own service, and waiting when
  none is.
\<close>

theorem two_waiting_entries_one_open_slot:
  assumes "distinct (map wl_id (Waitlist w))"
    and "waitingEntries w d = [e1, e2]"
    and "wl_createdAt e1 < wl_createdAt e2"
    and "User w (wl_userId e1) = Some u1" and "User w (wl_userId e2) = Some u2"
    and "Service w (wl_serviceId e1) = Some s1" and "Service w (wl_serviceId e2) = Some s2"
    and "formatAppointments (Service w) (activeAppointments w d) = Inr fa"
    and "getAvailableTimeSlots d fa (duration s1) = [slot]"
  shows "statusOf (updateWaitlistForDate client now w d) (wl_id e1) = Some notified \<and>
         statusOf (updateWaitlistForDate client now w d) (wl_id e2) =
           Some (if getAvailableTimeSlots d fa (duration s2) = [] then waiting else notified)"
proof -
  have ids: "set (passIds w d) =
      (if getAvailableTimeSlots d fa (duration s2) = [] then {wl_id e1} else {wl_id e1, wl_id e2})"
    using assms(2,4-9)
    by (cases "getAvailableTimeSlots d fa (duration s2)")
       (auto simp: passIds_def populateEntry_def)
  from assms(2) have m1: "e1 \<in> set (Waitlist w)" and m2: "e2 \<in> set (Waitlist w)"
    and w2: "wl_status e2 = waiting"
    using set_waitingEntries [of w d] by auto
  from distinct_waiting [OF assms(1), of d] assms(2) have ne: "wl_id e2 \<noteq> wl_id e1" by auto
  note st = updateWaitlistForDate_store [of client now w d]
  have a: "statusOf (updateWaitlistForDate client now w d) (wl_id e1) = Some notified"
    using st ids by (simp add: statusOf_def statusOf_markIds [OF assms(1) m1])
  have b: "statusOf (updateWaitlistForDate client now w d) (wl_id e2) =
           Some (if getAvailableTimeSlots d fa (duration s2) = [] then waiting else notified)"
    using st ids ne w2 by (simp add: statusOf_def statusOf_markIds [OF assms(1) m2])
  from a b show ?thesis by simp
qed

theorem two_waiting_entries_one_open_slot_witness:
  "statusOf (updateWaitlistForDate workingClient 100 exWorldLongService 0) 1 = Some notified \<and>
   statusOf (updateWaitlistForDate workingClient 100 exWorldLongService 0) 2 = Some waiting"
proof -
  have h1: "distinct (map wl_id (Waitlist exWorldLongService))" by code_simp
  have h2: "waitingEntries exWorldLongService 0 = [exEntry 1 10, (exEntry 2 20)\<lparr>wl_serviceId := 2\<rparr>]"
    by code_simp
  have h3: "wl_createdAt (exEntry 1 10) < wl_createdAt ((exEntry 2 20)\<lparr>wl_serviceId := 2\<rparr>)"
    by code_simp
  have h4: "User exWorldLongService (wl_userId (exEntry 1 10)) = Some exUser" by code_simp
  have h5: "User exWorldLongService (wl_userId ((exEntry 2 20)\<lparr>wl_serviceId := 2\<rparr>)) = Some exUser"
    by code_simp
  have h6: "Service exWorldLongService (wl_serviceId (exEntry 1 10)) =
              Some \<lparr>svc_name = ''Cut'', duration = 30\<rparr>" by code_simp
  have h7: "Service exWorldLongService (wl_serviceId ((exEntry 2 20)\<lparr>wl_serviceId := 2\<rparr>)) =
              Some \<lparr>svc_name = ''Colour'', duration = 60\<rparr>" by code_simp
  have h8: "formatAppointments (Service exWorldLongService) (activeAppointments exWorldLongService 0) =
              Inr exFormatted" by code_simp
  have h9: "getAvailableTimeSlots 0 exFormatted (duration \<lparr>svc_name = ''Cut'', duration = 30\<rparr>) =
              [''10:00'']" by code_simp
  have h10: "getAvailableTimeSlots 0 exFormatted (duration \<lparr>svc_name = ''Colour'', duration = 60\<rparr>) = []"
    by code_simp
  have i1: "wl_id (exEntry 1 10) = 1" and i2: "wl_id ((exEntry 2 20)\<lparr>wl_serviceId := 2\<rparr>) = 2"
    by (simp_all add: exEntry_def)
  from two_waiting_entries_one_open_slot [OF h1 h2 h3 h4 h5 h6 h7 h8 h9, of workingClient 100]
  show ?thesis unfolding h10 i1 i2 by simp
qed


section \<open>Running the pass again\<close>

lemma populate_ids:
  "map (\<lambda>p. wl_id (pe_entry p)) (map (populateEntry w) xs) = map wl_id xs"
  by (simp add: populateEntry_def)

lemma second_run:
  assumes dist: "distinct (map wl_id (Waitlist w))"
    and users: "\<forall>e\<in>set (waitingEntries w d). User w (wl_userId e) \<noteq> None"
  shows "updateWaitlistForDate c' n' (updateWaitlistForDate c n w d) d = updateWaitlistForDate c n w d \<or>
         updateWaitlistForDate c' n' (updateWaitlistForDate c n w d) d =
           (updateWaitlistForDate c n w d)
             \<lparr>events := events (updateWaitlistForDate c n w d) @ [ErrorLogged ''Error updating waitlist:'']\<rparr>"
proof -
  define w1 where "w1 = updateWaitlistForDate c n w d"
  define S where "S = set (passIds w d)"
  from updateWaitlistForDate_store [of c n w d]
  have st: "Waitlist w1 = markIds n S (Waitlist w)" "Appointment w1 = Appointment w"
    "Service w1 = Service w" "User w1 = User w"
    by (simp_all add: w1_def S_def)
  have we: "waitingEntries w1 d = filter (\<lambda>e. wl_id e \<notin> S) (waitingEntries w d)"
    by (rule waitingEntries_markIds [OF st(1)])
  have pop: "populateEntry w1 = populateEntry w"
    by (rule ext) (simp add: populateEntry_def st)
  have aa: "activeAppointments w1 d = activeAppointments w d"
    by (simp add: activeAppointments_def st)
  let ?pes = "map (populateEntry w) (waitingEntries w d)"
  let ?pes2 = "map (populateEntry w1) (waitingEntries w1 d)"
  have goal: "updateWaitlistForDate c' n' w1 d = w1 \<or>
      updateWaitlistForDate c' n' w1 d = w1\<lparr>events := events w1 @ [ErrorLogged ''Error updating waitlist:'']\<rparr>"
  proof (cases "formatAppointments (Service w) (activeAppointments w d)")
    case (Inl e)
    then show ?thesis by (simp add: updateWaitlistForDate_def Let_def aa st)
  next
    case (Inr fa)
    then have S: "S = set (savedIds d fa ?pes)" by (simp add: S_def passIds_def)
    have p2: "?pes2 = filter (\<lambda>p. wl_id (pe_entry p) \<notin> set (savedIds d fa ?pes)) ?pes"
      by (simp add: pop we S filter_map comp_def populateEntry_def)
    have d1: "distinct (map (\<lambda>p. wl_id (pe_entry p)) ?pes)"
      using distinct_waiting [OF dist, of d] by (simp only: populate_ids)
    have u1: "\<forall>p\<in>set ?pes. pe_user p \<noteq> None"
      using users by (simp add: populateEntry_def)
    from noop_on_rest [OF d1 u1, of c' n' d fa w1] obtain err where
      "forEntries c' n' d fa ?pes2 w1 = (w1, err)" unfolding p2 ..
    then show ?thesis
      by (cases err) (simp_all add: updateWaitlistForDate_def Let_def aa st Inr)
  qed
  then show ?thesis by (simp add: w1_def)
qed

lemma no_waiting_entries: "waitingEntries w d = [] \<Longrightarrow> updateWaitlistForDate c n w d = w"
  by (simp add: updateWaitlistForDate_def)

text \<open>
  Where every entry waiting on the day refers to an existing user, a second run of the
  pass right after the first one, with no write in between, saves nothing and requests
  no notification: it returns the world of the first run, but for one more logged error
  when the pass fails on a missing service (as the first run did). The entries notified
  by the first run are no longer waiting, and the entries left waiting have no open
  slot. A run on a day with no waiting entry returns the world unchanged: no write, no
  request, nothing logged.
\<close>

theorem second_run_is_noop:
  "(\<forall>client now client' now' w d.
      distinct (map wl_id (Waitlist w)) \<and>
      (\<forall>e\<in>set (waitingEntries w d). User w (wl_userId e) \<noteq> None)
      \<longrightarrow> (updateWaitlistForDate client' now' (updateWaitlistForDate client now w d) d =
             updateWaitlistForDate client now w d \<or>
           updateWaitlistForDate client' now' (updateWaitlistForDate client now w d) d =
             (updateWaitlistForDate client now w d)
               \<lparr>events := events (updateWaitlistForDate client now w d) @
                            [ErrorLogged ''Error updating waitlist:'']\<rparr>)) \<and>
   (\<forall>client now w d. waitingEntries w d = [] \<longrightarrow> updateWaitlistForDate client now w d = w)"
  using second_run no_waiting_entries by blast

theorem second_run_is_noop_witness:
  "updateWaitlistForDate failingClient 200 (updateWaitlistForDate workingClient 100 exWorld 0) 0 =
     updateWaitlistForDate workingClient 100 exWorld 0 \<and>
   statusOf (updateWaitlistForDate workingClient 100 exWorld 0) 1 = Some notified \<and>
   updateWaitlistForDate workingClient 100 exWorld 86400000 = exWorld"
proof -
  note t = second_run_is_noop
  have h1: "distinct (map wl_id (Waitlist exWorld))" by code_simp
  have h2: "\<forall>e\<in>set (waitingEntries exWorld 0). User exWorld (wl_userId e) \<noteq> None" by code_simp
  have h3: "waitingEntries exWorld 86400000 = []" by code_simp
  have ev: "events (updateWaitlistForDate failingClient 200 (updateWaitlistForDate workingClient 100 exWorld 0) 0) =
            events (updateWaitlistForDate workingClient 100 exWorld 0)" by code_simp
  from t [THEN conjunct1, rule_format, of exWorld 0 failingClient 200 workingClient 100] h1 h2
  have "updateWaitlistForDate failingClient 200 (updateWaitlistForDate workingClient 100 exWorld 0) 0 =
             updateWaitlistForDate workingClient 100 exWorld 0 \<or>
           updateWaitlistForDate failingClient 200 (updateWaitlistForDate workingClient 100 exWorld 0) 0 =
             (updateWaitlistForDate workingClient 100 exWorld 0)
               \<lparr>events := events (updateWaitlistForDate workingClient 100 exWorld 0) @
                            [ErrorLogged ''Error updating waitlist:'']\<rparr>" by blast
  then have a: "updateWaitlistForDate failingClient 200 (updateWaitlistForDate workingClient 100 exWorld 0) 0 =
     updateWaitlistForDate workingClient 100 exWorld 0"
  proof
    assume "updateWaitlistForDate failingClient 200 (updateWaitlistForDate workingClient 100 exWorld 0) 0 =
             updateWaitlistForDate workingClient 100 exWorld 0"
    then show ?thesis .
  next
    assume "updateWaitlistForDate failingClient 200 (updateWaitlistForDate workingClient 100 exWorld 0) 0 =
             (updateWaitlistForDate workingClient 100 exWorld 0)
               \<lparr>events := events (updateWaitlistForDate workingClient 100 exWorld 0) @
                            [ErrorLogged ''Error updating waitlist:'']\<rparr>"
    then have "events (updateWaitlistForDate failingClient 200 (updateWaitlistForDate workingClient 100 exWorld 0) 0) =
        events (updateWaitlistForDate workingClient 100 exWorld 0) @ [ErrorLogged ''Error updating waitlist:'']"
      by simp
    with ev show ?thesis by simp
  qed
  have b: "statusOf (updateWaitlistForDate workingClient 100 exWorld 0) 1 = Some notified" by code_simp
  from t [THEN conjunct2, rule_format, OF h3, of workingClient 100]
  have c: "updateWaitlistForDate workingClient 100 exWorld 86400000 = exWorld" .
  from a b c show ?thesis by simp
qed

text \<open>
  Claim C7. The claim says that a second run right after the first one, with no write in
  between, is a no-op. The code breaks it when the user of a waiting entry has been
  deleted. Here the user of the earlier of two waiting entries is missing: the first run
  saves that entry as notified, then fails on reading the preferences of the missing user
  (the read is not guarded), the one \<^verbatim>\<open>try\<close>/\<^verbatim>\<open>catch\<close> ends the loop, no notification is
  requested and the later entry is left waiting; the second run then saves the later
  entry and requests its notification. This is the code evaluated on that input.
\<close>

theorem second_run_notifies_after_aborted_first_run:
  "statusOf (updateWaitlistForDate workingClient 100 exWorldDeletedUser 0) 1 = Some notified \<and>
   statusOf (updateWaitlistForDate workingClient 100 exWorldDeletedUser 0) 2 = Some waiting \<and>
   statusOf (updateWaitlistForDate workingClient 200
               (updateWaitlistForDate workingClient 100 exWorldDeletedUser 0) 0) 2 = Some notified \<and>
   events (updateWaitlistForDate workingClient 100 exWorldDeletedUser 0) =
     [WaitlistSaved 1, ErrorLogged ''Error updating waitlist:''] \<and>
   events (updateWaitlistForDate workingClient 200
             (updateWaitlistForDate workingClient 100 exWorldDeletedUser 0) 0) =
     [WaitlistSaved 1, ErrorLogged ''Error updating waitlist:'', WaitlistSaved 2,
      SmsRequested \<lparr>sms_to = ''+15550100'', sms_serviceName = ''Cut'', sms_date = 0,
                     sms_slot = ''10:00''\<rparr>]"
  by code_simp

section \<open>Failure of the notification\<close>

text \<open>
  Claim C9. A failed delivery never rolls back the transition. The waitlist collection
  after a pass is the same whatever the SMS provider answers. In the body of the loop,
  for an entry with an open slot whose user wants SMS and has a phone number, and a
  provider that fails: \<open>sendWaitlistNotificationSMS\<close> returns false, the loop goes on
  without error, the entry is stored as notified with \<open>notifiedAt\<close> set, and the trace
  shows the save first, then the request to the provider, then the logged failure. The
  branch for e-mail sends nothing.
\<close>

theorem failed_send_keeps_notified:
  "(\<forall>client client' now w d.
      Waitlist (updateWaitlistForDate client now w d) =
      Waitlist (updateWaitlistForDate client' now w d)) \<and>
   (\<forall>client now d fa pe w svc usr ph sel.
      pe_service pe = Some svc \<and>
      selectSlot (getAvailableTimeSlots d fa (duration svc))
        (wl_preferredTimeSlots (pe_entry pe)) = Some sel \<and>
      pe_user pe = Some usr \<and> usr_smsNotifications usr \<and> usr_phone usr = Some ph \<and> ph \<noteq> [] \<and>
      client \<lparr>sms_to = ph, sms_serviceName = svc_name svc, sms_date = d, sms_slot = sel\<rparr> = None
      \<longrightarrow> fst (sendWaitlistNotificationSMS client usr svc d sel) = False \<and>
          snd (processEntry client now d fa pe w) = None \<and>
          Waitlist (fst (processEntry client now d fa pe w)) =
            map (\<lambda>x. if wl_id x = wl_id (pe_entry pe) then notifyDoc now x else x) (Waitlist w) \<and>
          events (fst (processEntry client now d fa pe w)) =
            events w @
            [WaitlistSaved (wl_id (pe_entry pe)),
             SmsRequested \<lparr>sms_to = ph, sms_serviceName = svc_name svc, sms_date = d, sms_slot = sel\<rparr>,
             ErrorLogged ''Error sending waitlist notification SMS:''])"
proof (rule conjI)
  show "\<forall>client client' now w d.
      Waitlist (updateWaitlistForDate client now w d) =
      Waitlist (updateWaitlistForDate client' now w d)"
    by (simp add: updateWaitlistForDate_store)
next
  show "\<forall>client now d fa pe w svc usr ph sel.
      pe_service pe = Some svc \<and>
      selectSlot (getAvailableTimeSlots d fa (duration svc))
        (wl_preferredTimeSlots (pe_entry pe)) = Some sel \<and>
      pe_user pe = Some usr \<and> usr_smsNotifications usr \<and> usr_phone usr = Some ph \<and> ph \<noteq> [] \<and>
      client \<lparr>sms_to = ph, sms_serviceName = svc_name svc, sms_date = d, sms_slot = sel\<rparr> = None
      \<longrightarrow> fst (sendWaitlistNotificationSMS client usr svc d sel) = False \<and>
          snd (processEntry client now d fa pe w) = None \<and>
          Waitlist (fst (processEntry client now d fa pe w)) =
            map (\<lambda>x. if wl_id x = wl_id (pe_entry pe) then notifyDoc now x else x) (Waitlist w) \<and>
          events (fst (processEntry client now d fa pe w)) =
            events w @
            [WaitlistSaved (wl_id (pe_entry pe)),
             SmsRequested \<lparr>sms_to = ph, sms_serviceName = svc_name svc, sms_date = d, sms_slot = sel\<rparr>,
             ErrorLogged ''Error sending waitlist notification SMS:'']"
  proof (intro allI impI)
  fix client :: twilio and now d fa and pe :: populatedEntry and w :: world
    and svc :: service and usr :: user and ph sel
  assume a: "pe_service pe = Some svc \<and>
      selectSlot (getAvailableTimeSlots d fa (duration svc))
        (wl_preferredTimeSlots (pe_entry pe)) = Some sel \<and>
      pe_user pe = Some usr \<and> usr_smsNotifications usr \<and> usr_phone usr = Some ph \<and> ph \<noteq> [] \<and>
      client \<lparr>sms_to = ph, sms_serviceName = svc_name svc, sms_date = d, sms_slot = sel\<rparr> = None"
  then have s: "sendWaitlistNotificationSMS client usr svc d sel =
      (False, [SmsRequested \<lparr>sms_to = ph, sms_serviceName = svc_name svc, sms_date = d, sms_slot = sel\<rparr>,
               ErrorLogged ''Error sending waitlist notification SMS:''])"
    by (simp add: sendWaitlistNotificationSMS_def)
  show "fst (sendWaitlistNotificationSMS client usr svc d sel) = False \<and>
          snd (processEntry client now d fa pe w) = None \<and>
          Waitlist (fst (processEntry client now d fa pe w)) =
            map (\<lambda>x. if wl_id x = wl_id (pe_entry pe) then notifyDoc now x else x) (Waitlist w) \<and>
          events (fst (processEntry client now d fa pe w)) =
            events w @
            [WaitlistSaved (wl_id (pe_entry pe)),
             SmsRequested \<lparr>sms_to = ph, sms_serviceName = svc_name svc, sms_date = d, sms_slot = sel\<rparr>,
             ErrorLogged ''Error sending waitlist notification SMS:'']"
    using a by (simp add: s processEntry_def saveWaitlist_notify markIds_def Let_def)
  qed
qed

theorem failed_send_keeps_notified_witness:
  "Waitlist (updateWaitlistForDate failingClient 100 exWorld 0) =
     Waitlist (updateWaitlistForDate workingClient 100 exWorld 0) \<and>
   fst (sendWaitlistNotificationSMS failingClient exUser \<lparr>svc_name = ''Cut'', duration = 30\<rparr> 0
          ''10:00'') = False \<and>
   snd (processEntry failingClient 100 0 exFormatted (populateEntry exWorld (exEntry 1 10)) exWorld) =
     None \<and>
   statusOf (fst (processEntry failingClient 100 0 exFormatted
                    (populateEntry exWorld (exEntry 1 10)) exWorld)) 1 = Some notified \<and>
   events (fst (processEntry failingClient 100 0 exFormatted
                  (populateEntry exWorld (exEntry 1 10)) exWorld)) =
     [WaitlistSaved 1,
      SmsRequested \<lparr>sms_to = ''+15550100'', sms_serviceName = ''Cut'', sms_date = 0,
                     sms_slot = ''10:00''\<rparr>,
      ErrorLogged ''Error sending waitlist notification SMS:'']"
proof -
  note t = failed_send_keeps_notified
  have a: "Waitlist (updateWaitlistForDate failingClient 100 exWorld 0) =
     Waitlist (updateWaitlistForDate workingClient 100 exWorld 0)"
    by (rule t [THEN conjunct1, rule_format])
  have h1: "pe_service (populateEntry exWorld (exEntry 1 10)) = Some \<lparr>svc_name = ''Cut'', duration = 30\<rparr>"
    by code_simp
  have h2: "selectSlot (getAvailableTimeSlots 0 exFormatted (duration \<lparr>svc_name = ''Cut'', duration = 30\<rparr>))
      (wl_preferredTimeSlots (pe_entry (populateEntry exWorld (exEntry 1 10)))) = Some ''10:00''"
    by code_simp
  have h3: "pe_user (populateEntry exWorld (exEntry 1 10)) = Some exUser" by code_simp
  have h4: "usr_smsNotifications exUser \<and> usr_phone exUser = Some ''+15550100'' \<and> ''+15550100'' \<noteq> []"
    by code_simp
  have h5: "failingClient \<lparr>sms_to = ''+15550100'', sms_serviceName = svc_name \<lparr>svc_name = ''Cut'', duration = 30\<rparr>,
      sms_date = 0, sms_slot = ''10:00''\<rparr> = None"
    by (simp add: failingClient_def)
  from t [THEN conjunct2, rule_format,
      where pe = "populateEntry exWorld (exEntry 1 10)"
        and svc = "\<lparr>svc_name = ''Cut'', duration = 30\<rparr>"
        and usr = exUser and ph = "''+15550100''" and d = 0 and fa = exFormatted
        and sel = "''10:00''" and client = failingClient and now = 100 and w = exWorld]
    h1 h2 h3 h4 h5
  have b: "fst (sendWaitlistNotificationSMS failingClient exUser \<lparr>svc_name = ''Cut'', duration = 30\<rparr> 0
          ''10:00'') = False \<and>
     snd (processEntry failingClient 100 0 exFormatted (populateEntry exWorld (exEntry 1 10)) exWorld) =
       None \<and>
     events (fst (processEntry failingClient 100 0 exFormatted
                  (populateEntry exWorld (exEntry 1 10)) exWorld)) =
       events exWorld @
       [WaitlistSaved (wl_id (pe_entry (populateEntry exWorld (exEntry 1 10)))),
        SmsRequested \<lparr>sms_to = ''+15550100'',
                       sms_serviceName = svc_name \<lparr>svc_name = ''Cut'', duration = 30\<rparr>, sms_date = 0,
                       sms_slot = ''10:00''\<rparr>,
        ErrorLogged ''Error sending waitlist notification SMS:'']"
    by blast
  have c: "statusOf (fst (processEntry failingClient 100 0 exFormatted
                    (populateEntry exWorld (exEntry 1 10)) exWorld)) 1 = Some notified"
    by code_simp
  have e: "events exWorld = []" "wl_id (pe_entry (populateEntry exWorld (exEntry 1 10))) = 1"
    by (simp_all add: exWorld_def populateEntry_def exEntry_def)
  from a b c show ?thesis unfolding e by simp
qed


end
